theory Spec2Isabelle
  imports Main "HOL-Library.Sublist"
begin

section \<open>The domain scanner \<open>detect-cms-cli.js\<close>\<close>

text \<open>
  The script loads a list of domains, asks the WhatCMS Tech API about each of them in turn,
  turns every answer (or failure) into one flat record, and writes the records to a CSV
  file whose name it picks itself. The embedding below follows the script top to bottom.
  Everything outside the script (the HTTP service, the file system, the clock, the
  downloaded lists, \<open>JSON.stringify\<close>) is a field of the record \<open>world\<close>, so that every
  function of the model is an ordinary executable HOL function.
\<close>

subsection \<open>JavaScript values and strings\<close>

text \<open>
  Scalar values of a JSON answer. \<open>JUndefined\<close> is what a property access gives for a key
  that is absent. Numbers are the integers the service sends (codes, identifiers).
\<close>

datatype jsval = JUndefined | JNull | JBool bool | JNum int | JStr string

fun truthy :: "jsval \<Rightarrow> bool" where
  "truthy JUndefined = False"
| "truthy JNull = False"
| "truthy (JBool b) = b"
| "truthy (JNum n) = (n \<noteq> 0)"
| "truthy (JStr s) = (s \<noteq> [])"

text \<open>\<open>v || ''\<close>\<close>

definition or_empty :: "jsval \<Rightarrow> jsval" where
  "or_empty v = (if truthy v then v else JStr [])"

function show_nat :: "nat \<Rightarrow> string" where
  "show_nat n =
     (if n < 10 then [''0123456789'' ! n]
      else show_nat (n div 10) @ [''0123456789'' ! (n mod 10)])"
  by pat_completeness auto
termination
  by (relation "measure id") auto

definition show_int :: "int \<Rightarrow> string" where
  "show_int k = (if k < 0 then CHR ''-'' # show_nat (nat (- k)) else show_nat (nat k))"

text \<open>String conversion, as done by \<open>' v' + version\<close> and by \<open>new Error(msg)\<close>.\<close>

fun js_to_string :: "jsval \<Rightarrow> string" where
  "js_to_string JUndefined = ''undefined''"
| "js_to_string JNull = ''null''"
| "js_to_string (JBool b) = (if b then ''true'' else ''false'')"
| "js_to_string (JNum n) = show_int n"
| "js_to_string (JStr s) = s"

text \<open>
  \<open>toLowerCase\<close> and the \<open>i\<close> flag of a regular expression, on the letters A to Z. Strings
  are byte sequences here; no byte outside ASCII lowers to an ASCII letter, so comparisons
  with ASCII text such as \<open>'umbraco'\<close> come out as in the script.
\<close>

definition lower_char :: "char \<Rightarrow> char" where
  "lower_char c =
     (case map_of (zip ''ABCDEFGHIJKLMNOPQRSTUVWXYZ'' ''abcdefghijklmnopqrstuvwxyz'') c of
        Some l \<Rightarrow> l
      | None \<Rightarrow> c)"

definition toLowerCase :: "string \<Rightarrow> string" where
  "toLowerCase s = map lower_char s"

text \<open>\<open>xs.join(sep)\<close>\<close>

fun join :: "string \<Rightarrow> string list \<Rightarrow> string" where
  "join sep [] = []"
| "join sep [x] = x"
| "join sep (x # y # ys) = x @ sep @ join sep (y # ys)"

subsection \<open>Plans\<close>

record plan =
  monthlyQuota :: nat
  minTimeMs :: nat

definition PLANS :: "(string \<times> plan) list" where
  "PLANS =
     [(''free'',   \<lparr>monthlyQuota = 500,    minTimeMs = 15000\<rparr>),
      (''10000'',  \<lparr>monthlyQuota = 10000,  minTimeMs = 5000\<rparr>),
      (''20000'',  \<lparr>monthlyQuota = 20000,  minTimeMs = 2000\<rparr>),
      (''50000'',  \<lparr>monthlyQuota = 50000,  minTimeMs = 1000\<rparr>),
      (''100000'', \<lparr>monthlyQuota = 100000, minTimeMs = 1000\<rparr>),
      (''200000'', \<lparr>monthlyQuota = 200000, minTimeMs = 250\<rparr>),
      (''300000'', \<lparr>monthlyQuota = 300000, minTimeMs = 250\<rparr>),
      (''400000'', \<lparr>monthlyQuota = 400000, minTimeMs = 250\<rparr>),
      (''500000'', \<lparr>monthlyQuota = 500000, minTimeMs = 250\<rparr>)]"

subsection \<open>The Tech API and \<open>detectCMS\<close>\<close>

text \<open>
  One entry of the \<open>results\<close> array of an answer. The script calls \<open>toLowerCase\<close> on a
  truthy \<open>name\<close> and \<open>join\<close> on truthy \<open>categories\<close>, so these two carry the types the
  service gives them (a string, an array of strings), \<open>None\<close> standing for an absent or
  null property; the other three properties are only passed on (\<open>tech_id\<close> is the property \<open>id\<close>).
\<close>

record technology =
  name :: "string option"
  tech_id :: jsval
  version :: jsval
  categories :: "string list option"
  url :: jsval

text \<open>An entry of \<open>meta.social\<close>: a flat object, never inspected by the script.\<close>

type_synonym social = "(string \<times> jsval) list"

text \<open>
  The body of an answer (\<open>resp.data\<close>): \<open>data_error\<close> is the truthiness of its \<open>error\<close>
  property, \<open>data_result\<close> the pair \<open>(code, msg)\<close> of its \<open>result\<close> object when there is
  one, \<open>data_social\<close> the \<open>social\<close> property of its \<open>meta\<close> object.
\<close>

record api_data =
  data_error :: bool
  data_msg :: jsval
  data_request :: jsval
  data_last_checked :: jsval
  data_result :: "(jsval \<times> jsval) option"
  data_results :: "technology list option"
  data_social :: "social list option"

text \<open>
  What \<open>axios.get\<close> does with one request: it throws (connection failure, timeout after
  15 s, rejected status) with a message, or it returns a response.
\<close>

datatype http_outcome = HttpFailure string | HttpResponse api_data

record techData =
  request :: jsval
  last_checked :: jsval
  result_code :: jsval
  result_msg :: jsval
  results :: "technology list"
  meta_social :: "social list"
  error :: string

text \<open>The \<open>message\<close> of \<open>new Error(msg)\<close>: empty when \<open>msg\<close> is undefined.\<close>

definition error_message :: "jsval \<Rightarrow> string" where
  "error_message m = (case m of JUndefined \<Rightarrow> [] | _ \<Rightarrow> js_to_string m)"

text \<open>
  \<open>detectCMS\<close>: \<open>Inl\<close> is the message of the error it throws (its \<open>catch\<close> block logs and
  rethrows), \<open>Inr\<close> the object it returns.
\<close>

definition detectCMS :: "http_outcome \<Rightarrow> string + techData" where
  "detectCMS resp =
     (case resp of
        HttpFailure m \<Rightarrow> Inl m
      | HttpResponse d \<Rightarrow>
          if data_error d then Inl (error_message (data_msg d))
          else Inr \<lparr>request = or_empty (data_request d),
                    last_checked = or_empty (data_last_checked d),
                    result_code = (case data_result d of None \<Rightarrow> JStr [] | Some (c, m) \<Rightarrow> or_empty c),
                    result_msg = (case data_result d of None \<Rightarrow> JStr [] | Some (c, m) \<Rightarrow> or_empty m),
                    results = (case data_results d of None \<Rightarrow> [] | Some rs \<Rightarrow> rs),
                    meta_social = (case data_social d of None \<Rightarrow> [] | Some ss \<Rightarrow> ss),
                    error = []\<rparr>)"

subsection \<open>The world outside the script\<close>

text \<open>
  \<^item> \<open>api_key\<close>: \<open>process.env.WHATCMS_API_KEY\<close>;
  \<^item> \<open>tech_api i d\<close>: what the request for domain \<open>d\<close>, made at loop index \<open>i\<close>, comes to;
  \<^item> \<open>stringify_results\<close>, \<open>stringify_social\<close>: \<open>JSON.stringify\<close> on the two arrays;
  \<^item> \<open>existsSync\<close>: the paths that exist when the output name is chosen;
  \<^item> \<open>readFileSync\<close>: the text of a file, \<open>None\<close> when reading throws;
  \<^item> \<open>majestic\<close>, \<open>tranco\<close>: what \<open>fetchMajesticMillion\<close> and \<open>fetchTranco\<close> resolve to
    (the empty list when the download fails), \<open>None\<close> when their stream rejects;
  \<^item> \<open>now_default\<close>, \<open>now_exists\<close>: \<open>new Date().toISOString()\<close> at its two uses.
\<close>

record world =
  api_key :: "string option"
  tech_api :: "nat \<Rightarrow> string \<Rightarrow> http_outcome"
  stringify_results :: "technology list \<Rightarrow> string"
  stringify_social :: "social list \<Rightarrow> string"
  existsSync :: "string \<Rightarrow> bool"
  readFileSync :: "string \<Rightarrow> string option"
  majestic :: "string list option"
  tranco :: "string list option"
  now_default :: string
  now_exists :: string

subsection \<open>Rows\<close>

text \<open>
  The five columns \<open>techN_name\<close>, \<open>techN_id\<close>, \<open>techN_version\<close>, \<open>techN_categories\<close>,
  \<open>techN_url\<close> of one slot. A row keeps them under the slot number \<open>N\<close>: \<open>row_tech r N\<close> is
  \<open>None\<close> when the object has no property \<open>techN_...\<close>.
\<close>

record tech_slot =
  slot_name :: string
  slot_id :: jsval
  slot_version :: jsval
  slot_categories :: string
  slot_url :: jsval

record row =
  row_domain :: string
  row_request :: jsval
  row_last_checked :: jsval
  row_result_code :: jsval
  row_result_msg :: jsval
  row_results_count :: nat
  row_results_json :: string
  row_meta_social_json :: string
  row_error :: string
  row_tech :: "nat \<Rightarrow> tech_slot option"

definition empty_slot :: tech_slot where
  "empty_slot = \<lparr>slot_name = [], slot_id = JStr [], slot_version = JStr [],
                  slot_categories = [], slot_url = JStr []\<rparr>"

text \<open>The body of the first inner loop, for \<open>tech = techData.results[i]\<close>.\<close>

definition slot_of :: "technology \<Rightarrow> tech_slot" where
  "slot_of t =
     \<lparr>slot_name = (case name t of None \<Rightarrow> [] | Some n \<Rightarrow> n),
      slot_id = or_empty (tech_id t),
      slot_version = or_empty (version t),
      slot_categories = (case categories t of None \<Rightarrow> [] | Some cs \<Rightarrow> join '', '' cs),
      slot_url = or_empty (url t)\<rparr>"

text \<open>
  \<open>for (let i = 0; i < Math.min(techData.results.length, 10); i++)\<close>: the indices are
  given as a list, every one of them below the length of \<open>rs\<close>.
\<close>

fun fill_slots :: "technology list \<Rightarrow> nat list \<Rightarrow> (nat \<Rightarrow> tech_slot option) \<Rightarrow> (nat \<Rightarrow> tech_slot option)" where
  "fill_slots rs [] m = m"
| "fill_slots rs (i # is) m = fill_slots rs is (m(i + 1 \<mapsto> slot_of (rs ! i)))"

text \<open>\<open>for (let i = techData.results.length; i < 10; i++)\<close>, and with \<open>[0..<10]\<close> the loop of the
  \<open>catch\<close> block, which runs \<open>i\<close> from 1 to 10 and writes slot \<open>i\<close>.\<close>

fun clear_slots :: "nat list \<Rightarrow> (nat \<Rightarrow> tech_slot option) \<Rightarrow> (nat \<Rightarrow> tech_slot option)" where
  "clear_slots [] m = m"
| "clear_slots (i # is) m = clear_slots is (m(i + 1 \<mapsto> empty_slot))"

text \<open>The object \<open>result\<close> of the \<open>try\<close> block, after both inner loops.\<close>

definition success_row :: "world \<Rightarrow> string \<Rightarrow> techData \<Rightarrow> row" where
  "success_row W domain td =
     \<lparr>row_domain = domain,
      row_request = request td,
      row_last_checked = last_checked td,
      row_result_code = result_code td,
      row_result_msg = result_msg td,
      row_results_count = length (results td),
      row_results_json = stringify_results W (results td),
      row_meta_social_json = stringify_social W (meta_social td),
      row_error = error td,
      row_tech =
        clear_slots [length (results td)..<10]
          (fill_slots (results td) [0..<min (length (results td)) 10] Map.empty)\<rparr>"

text \<open>The object \<open>errorResult\<close> of the \<open>catch\<close> block.\<close>

definition error_row :: "string \<Rightarrow> string \<Rightarrow> row" where
  "error_row domain msg =
     \<lparr>row_domain = domain,
      row_request = JStr [],
      row_last_checked = JStr [],
      row_result_code = JStr [],
      row_result_msg = JStr [],
      row_results_count = 0,
      row_results_json = [],
      row_meta_social_json = [],
      row_error = msg,
      row_tech = clear_slots [0..<10] Map.empty\<rparr>"

subsection \<open>The Umbraco check\<close>

text \<open>\<open>result.name && result.name.toLowerCase() === 'umbraco'\<close>\<close>

definition is_umbraco :: "technology \<Rightarrow> bool" where
  "is_umbraco t = (case name t of None \<Rightarrow> False | Some n \<Rightarrow> n \<noteq> [] \<and> toLowerCase n = ''umbraco'')"

text \<open>
  Lines of the console written by the main loop; the numbers are \<open>i+1\<close> and \<open>total\<close>, the
  strings the texts interpolated into the line.
\<close>

datatype console_line =
    Scanning nat nat string
  | QuotaReached nat
  | IsUmbraco nat nat string string
  | NotUmbraco nat nat string string
  | ErrorOn nat nat string string

definition umbraco_line :: "nat \<Rightarrow> nat \<Rightarrow> string \<Rightarrow> techData \<Rightarrow> console_line" where
  "umbraco_line i total' domain td =
     (case find is_umbraco (results td) of
        Some umbracoResult \<Rightarrow>
          IsUmbraco (i + 1) total' domain
            (if truthy (version umbracoResult) then '' v'' @ js_to_string (version umbracoResult) else [])
      | None \<Rightarrow>
          (let techNames = join '', '' (map (\<lambda>r. case name r of None \<Rightarrow> [] | Some n \<Rightarrow> n) (results td))
           in NotUmbraco (i + 1) total' domain (if techNames \<noteq> [] then techNames else ''unknown'')))"

subsection \<open>The main loop\<close>

text \<open>
  Where the run stands: inside the \<open>for\<close> loop, out of it through \<open>break\<close> (the quota is
  used up), or out of it because \<open>i < total\<close> failed.
\<close>

datatype run_status = Running | Halted | Completed

text \<open>
  The variables \<open>i\<close>, \<open>used\<close> and \<open>results\<close> of the loop (\<open>idx\<close>, \<open>used\<close>, \<open>rows\<close>), with two
  effects made visible: \<open>requests\<close> lists the domains \<open>detectCMS\<close> was called with, in the
  order of the calls, and \<open>console\<close> the lines logged.
\<close>

record scan_state =
  idx :: nat
  used :: nat
  rows :: "row list"
  requests :: "string list"
  console :: "console_line list"
  status :: run_status

definition init_state :: scan_state where
  "init_state = \<lparr>idx = 0, used = 0, rows = [], requests = [], console = [], status = Running\<rparr>"

text \<open>
  \<open>limiter.schedule(task)\<close> resolves or rejects as the task does; the waiting it adds is
  not part of the model.
\<close>

definition limiter_schedule :: "(string + techData) \<Rightarrow> (string + techData)" where
  "limiter_schedule task = task"

text \<open>
  One turn of the \<open>for\<close> loop: the test \<open>i < total\<close>, the quota check, then the \<open>try\<close> block
  or, when \<open>detectCMS\<close> throws, the \<open>catch\<close> block; \<open>i++\<close> ends the turn.
\<close>

definition scan_step :: "world \<Rightarrow> plan \<Rightarrow> string list \<Rightarrow> scan_state \<Rightarrow> scan_state" where
  "scan_step W p domains s =
     (if status s \<noteq> Running then s
      else if \<not> idx s < length domains then s\<lparr>status := Completed\<rparr>
      else if used s \<ge> monthlyQuota p then
        s\<lparr>console := console s @ [QuotaReached (monthlyQuota p)], status := Halted\<rparr>
      else
        (let i = idx s; total' = length domains; domain = domains ! i in
         case limiter_schedule (detectCMS (tech_api W i domain)) of
           Inr td \<Rightarrow>
             s\<lparr>idx := i + 1,
               used := used s + 1,
               rows := rows s @ [success_row W domain td],
               requests := requests s @ [domain],
               console := console s @ [Scanning (i + 1) total' domain, umbraco_line i total' domain td]\<rparr>
         | Inl msg \<Rightarrow>
             s\<lparr>idx := i + 1,
               rows := rows s @ [error_row domain msg],
               requests := requests s @ [domain],
               console := console s @ [Scanning (i + 1) total' domain, ErrorOn (i + 1) total' domain msg]\<rparr>))"

function scan_loop :: "world \<Rightarrow> plan \<Rightarrow> string list \<Rightarrow> scan_state \<Rightarrow> scan_state" where
  "scan_loop W p domains s =
     (if status s = Running then scan_loop W p domains (scan_step W p domains s) else s)"
  by pat_completeness auto
termination
  by (relation "measure (\<lambda>(W, p, domains, s).
        if status s = Running then Suc (length domains - idx s) else 0)")
     (auto simp: scan_step_def Let_def split: sum.splits)

declare scan_loop.simps [simp del]

text \<open>The state after \<open>k\<close> turns of the loop, and the whole loop from its start.\<close>

definition scan_after :: "world \<Rightarrow> plan \<Rightarrow> string list \<Rightarrow> nat \<Rightarrow> scan_state" where
  "scan_after W p domains k = (scan_step W p domains ^^ k) init_state"

definition scan :: "world \<Rightarrow> plan \<Rightarrow> string list \<Rightarrow> scan_state" where
  "scan W p domains = scan_loop W p domains init_state"

subsection \<open>What the loop does at each index\<close>

text \<open>
  The outcome of \<open>detectCMS\<close> at loop index \<open>i\<close> and the row that the turn at \<open>i\<close> pushes:
  the \<open>try\<close> block's row when the call returns, the \<open>catch\<close> block's row when it throws.
\<close>

definition detect_at :: "world \<Rightarrow> string list \<Rightarrow> nat \<Rightarrow> string + techData" where
  "detect_at W domains i = detectCMS (tech_api W i (domains ! i))"

definition detect_ok :: "world \<Rightarrow> string list \<Rightarrow> nat \<Rightarrow> bool" where
  "detect_ok W domains i = (case detect_at W domains i of Inr td \<Rightarrow> True | Inl msg \<Rightarrow> False)"

definition row_at :: "world \<Rightarrow> string list \<Rightarrow> nat \<Rightarrow> row" where
  "row_at W domains i =
     (case detect_at W domains i of
        Inr td \<Rightarrow> success_row W (domains ! i) td
      | Inl msg \<Rightarrow> error_row (domains ! i) msg)"

text \<open>The number of calls among the first \<open>j\<close> that returned.\<close>

definition returned_calls :: "world \<Rightarrow> string list \<Rightarrow> nat \<Rightarrow> nat" where
  "returned_calls W domains j = length (filter (detect_ok W domains) [0..<j])"

subsection \<open>Command-line options\<close>

text \<open>
  \<open>program.opts()\<close>. \<open>plan\<close>, \<open>source\<close>, \<open>extension\<close> and \<open>output\<close> have defaults and are always
  strings; \<open>input\<close> and \<open>domain\<close> are \<open>None\<close> when not given; \<open>limit\<close> is the result of
  \<open>parseInt\<close>, \<open>None\<close> when the option is not given or does not parse (\<open>NaN\<close>), both falsy.
\<close>

record opts =
  opt_plan :: string
  opt_source :: string
  opt_extension :: string
  opt_fetch :: bool
  opt_input :: "string option"
  opt_domain :: "string option"
  opt_limit :: "int option"
  opt_output :: string

text \<open>Truthiness of an optional string: given and not empty.\<close>

definition given :: "string option \<Rightarrow> bool" where
  "given x = (case x of None \<Rightarrow> False | Some s \<Rightarrow> s \<noteq> [])"

subsection \<open>Output file names\<close>

text \<open>\<open>iso.replace(/[:.]/g, '-').slice(0, -5)\<close>\<close>

definition timestamp :: "string \<Rightarrow> string" where
  "timestamp iso_string =
     (let t = map (\<lambda>c. if c = CHR '':'' \<or> c = CHR ''.'' then CHR ''-'' else c) iso_string
      in take (length t - 5) t)"

text \<open>\<open>s.replace(/[^a-zA-Z0-9]/g, '-')\<close>\<close>

definition alnum :: "char \<Rightarrow> bool" where
  "alnum c = (c \<in> set ''abcdefghijklmnopqrstuvwxyzABCDEFGHIJKLMNOPQRSTUVWXYZ0123456789'')"

definition sanitize :: "string \<Rightarrow> string" where
  "sanitize s = map (\<lambda>c. if alnum c then c else CHR ''-'') s"

definition generateDefaultFilename :: "world \<Rightarrow> opts \<Rightarrow> string" where
  "generateDefaultFilename W opts =
     (let parts =
        [''cms-scan''] @
        (if given (opt_domain opts) then [''single'', sanitize (the (opt_domain opts))]
         else (if opt_source opts \<noteq> [] then [opt_source opts] else []) @
              (if opt_extension opts \<noteq> [] then [opt_extension opts] else []) @
              (case opt_limit opts of
                 None \<Rightarrow> []
               | Some n \<Rightarrow> if n \<noteq> 0 then [''limit-'' @ show_int n] else [])) @
        [timestamp (now_default W)]
      in join ''-'' parts @ ''.csv'')"

text \<open>
  \<open>path.extname\<close> and \<open>path.basename\<close> of Node, for POSIX paths. The last segment of a
  path is what follows its last slash, trailing slashes set aside. The extension starts at
  the last dot of that segment, unless there is none, the dot comes first, or the segment
  is \<open>..\<close>. \<open>path.basename(p, ext)\<close> is given as the script uses it, with \<open>ext\<close> the
  extension of \<open>p\<close> or empty.
\<close>

definition last_segment :: "string \<Rightarrow> string" where
  "last_segment p =
     rev (takeWhile (\<lambda>c. c \<noteq> CHR ''/'') (dropWhile (\<lambda>c. c = CHR ''/'') (rev p)))"

definition path_extname :: "string \<Rightarrow> string" where
  "path_extname p =
     (let seg = last_segment p;
          after = rev (takeWhile (\<lambda>c. c \<noteq> CHR ''.'') (rev seg))
      in if CHR ''.'' \<notin> set seg \<or> length after + 1 = length seg \<or> seg = ''..'' then []
         else drop (length seg - length after - 1) seg)"

definition path_basename :: "string \<Rightarrow> string \<Rightarrow> string" where
  "path_basename p ext =
     (let seg = last_segment p
      in if ext \<noteq> [] \<and> ext = p then []
         else if ext \<noteq> [] \<and> length ext < length seg \<and> drop (length seg - length ext) seg = ext
           then take (length seg - length ext) seg
         else seg)"

definition getOutputFilename :: "world \<Rightarrow> opts \<Rightarrow> string" where
  "getOutputFilename W opts =
     (let filename = opt_output opts;
          filename = (if filename = [] \<or> filename = ''results.csv''
                      then generateDefaultFilename W opts else filename)
      in if existsSync W filename then
           (let ext = path_extname filename;
                base = path_basename filename ext
            in base @ ''-'' @ timestamp (now_exists W) @ ext)
         else filename)"

subsection \<open>Loading and filtering the domains\<close>

text \<open>\<open>text.split(/\r?\n/)\<close>: a line ends at a line feed, with the carriage return before it.\<close>

fun split_lines :: "string \<Rightarrow> string list" where
  "split_lines [] = [[]]"
| "split_lines (c # cs) =
     (if c = CHR 0x0A then [] # split_lines cs
      else if c = CHR 0x0D \<and> take 1 cs = [CHR 0x0A] then [] # split_lines (drop 1 cs)
      else (case split_lines cs of [] \<Rightarrow> [[c]] | l # ls \<Rightarrow> (c # l) # ls))"

text \<open>
  \<open>new RegExp(`\\.${ext}$`, 'i').test(d)\<close> with \<open>ext\<close> the extension less one leading dot:
  \<open>d\<close> ends with a dot and \<open>ext\<close>, letter case ignored. This is what the expression means
  when the extension is made of letters and digits, as a top-level domain is; other
  characters of it would be read by the script as regular-expression syntax.
\<close>

definition tldPattern_test :: "string \<Rightarrow> string \<Rightarrow> bool" where
  "tldPattern_test extension d =
     (let ext = (case extension of c # cs \<Rightarrow> if c = CHR ''.'' then cs else extension | [] \<Rightarrow> []);
          pat = CHR ''.'' # ext
      in length pat \<le> length d \<and>
         toLowerCase (drop (length d - length pat) d) = toLowerCase pat)"

text \<open>\<open>xs.slice(0, n)\<close>: a negative \<open>n\<close> counts from the end.\<close>

definition slice0 :: "'a list \<Rightarrow> int \<Rightarrow> 'a list" where
  "slice0 xs n = (if n < 0 then take (length xs - nat (- n)) xs else take (nat n) xs)"

text \<open>
  How the script ends: \<open>process.exit(code)\<close> before anything is written, an exception that
  nothing catches, or \<open>writeRecords\<close> on the chosen file with the rows of the run, after
  which the process ends normally (exit code 0).
\<close>

datatype outcome = Exit nat | Uncaught | Written string "row list" scan_state

text \<open>The branches that fill \<open>domains\<close>; \<open>Inl\<close> when the script ends there.\<close>

definition load_domains :: "world \<Rightarrow> opts \<Rightarrow> outcome + string list" where
  "load_domains W opts =
     (if opt_fetch opts then
        (if opt_source opts = ''majestic'' then
           (case majestic W of None \<Rightarrow> Inl Uncaught | Some ds \<Rightarrow> Inr ds)
         else if opt_source opts = ''tranco'' then
           (case tranco W of None \<Rightarrow> Inl Uncaught | Some ds \<Rightarrow> Inr ds)
         else Inl (Exit 1))
      else if given (opt_input opts) then
        (case readFileSync W (the (opt_input opts)) of
           None \<Rightarrow> Inl Uncaught
         | Some text \<Rightarrow> Inr (filter (\<lambda>l. l \<noteq> []) (split_lines text)))
      else if given (opt_domain opts) then Inr [the (opt_domain opts)]
      else Inl (Exit 1))"

text \<open>The TLD filter and the limit, skipped when a single domain was asked for.\<close>

definition select_domains :: "opts \<Rightarrow> string list \<Rightarrow> string list" where
  "select_domains opts domains =
     (if \<not> given (opt_domain opts) then
        (let filtered = filter (tldPattern_test (opt_extension opts)) domains
         in case opt_limit opts of
              None \<Rightarrow> filtered
            | Some n \<Rightarrow> if n \<noteq> 0 then slice0 filtered n else filtered)
      else domains)"

text \<open>
  The script from its first line to its last. The plan is looked up among the nine names
  of \<open>PLANS\<close>.
\<close>

definition main :: "world \<Rightarrow> opts \<Rightarrow> outcome" where
  "main W opts =
     (if \<not> given (api_key W) then Exit 1
      else if opt_source opts = ''alexa'' then Exit 1
      else case map_of PLANS (opt_plan opts) of
        None \<Rightarrow> Exit 1
      | Some plan \<Rightarrow>
          (case load_domains W opts of
             Inl out \<Rightarrow> out
           | Inr domains \<Rightarrow>
               if length domains = 0 then Exit 0
               else
                 (let domains = select_domains opts domains;
                      final = scan W plan domains;
                      outputFilename = getOutputFilename W opts
                  in Written outputFilename (rows final) final)))"

text \<open>The exit code of a run and the file it leaves behind.\<close>

fun exit_code :: "outcome \<Rightarrow> nat" where
  "exit_code (Exit n) = n"
| "exit_code Uncaught = 1"
| "exit_code (Written f rs s) = 0"

fun output_file :: "outcome \<Rightarrow> (string \<times> row list) option" where
  "output_file (Written f rs s) = Some (f, rs)"
| "output_file out = None"

subsection \<open>The loop invariant\<close>

text \<open>
  What holds of the loop's variables before and after every turn: the rows and the
  requests made are those of the indices below \<open>i\<close>, \<open>used\<close> counts the calls among them
  that returned, every index below \<open>i\<close> passed the quota check, and the two ways out of
  the loop are taken only where the script takes them.
\<close>

definition scan_inv :: "world \<Rightarrow> plan \<Rightarrow> string list \<Rightarrow> scan_state \<Rightarrow> bool" where
  "scan_inv W p domains s =
     (idx s \<le> length domains \<and>
      used s \<le> monthlyQuota p \<and>
      used s = returned_calls W domains (idx s) \<and>
      rows s = map (row_at W domains) [0..<idx s] \<and>
      requests s = take (idx s) domains \<and>
      (\<forall>j<idx s. returned_calls W domains j < monthlyQuota p) \<and>
      (status s = Completed \<longrightarrow> idx s = length domains) \<and>
      (status s = Halted \<longrightarrow> idx s < length domains \<and> monthlyQuota p \<le> used s))"

subsection \<open>Rows compared up to technology names\<close>

text \<open>
  A technology with its name removed, and a row with the columns that carry technology
  names blanked: the ten \<open>techN_name\<close> columns and \<open>results_json\<close>, the serialised
  technology array.
\<close>

definition nameless :: "technology \<Rightarrow> technology" where
  "nameless t = t\<lparr>name := None\<rparr>"

definition without_names :: "row \<Rightarrow> row" where
  "without_names r =
     r\<lparr>row_results_json := [],
       row_tech := (\<lambda>n. map_option (\<lambda>sl. sl\<lparr>slot_name := []\<rparr>) (row_tech r n))\<rparr>"

subsection \<open>Sample runs\<close>

text \<open>
  A service that answers every request with one technology, Umbraco 10, and one whose
  every request times out; a plan with a quota of one request, and the free plan.
\<close>

definition umbraco_tech :: technology where
  "umbraco_tech = \<lparr>name = Some ''Umbraco'', tech_id = JNum 1234, version = JStr ''10.0.0'',
                    categories = Some [''CMS''], url = JStr ''https://umbraco.com''\<rparr>"

definition umbraco_answer :: api_data where
  "umbraco_answer =
     \<lparr>data_error = False, data_msg = JUndefined,
      data_request = JStr ''https://whatcms.org/API/Tech'', data_last_checked = JNull,
      data_result = Some (JNum 200, JStr ''Success''),
      data_results = Some [umbraco_tech],
      data_social = None\<rparr>"

definition world_up :: world where
  "world_up =
     \<lparr>api_key = Some ''key'',
      tech_api = (\<lambda>i d. HttpResponse umbraco_answer),
      stringify_results = (\<lambda>rs. ''[...]''),
      stringify_social = (\<lambda>ss. ''[]''),
      existsSync = (\<lambda>f. False),
      readFileSync = (\<lambda>f. if f = ''domains.txt'' then Some (''example.com'' @ [CHR 0x0A]) else None),
      majestic = Some [],
      tranco = Some [],
      now_default = ''2024-01-15T10:30:00.000Z'',
      now_exists = ''2024-01-15T10:30:00.000Z''\<rparr>"

definition world_down :: world where
  "world_down = world_up\<lparr>tech_api := (\<lambda>i d. HttpFailure ''timeout of 15000ms exceeded'')\<rparr>"

definition plan_one :: plan where
  "plan_one = \<lparr>monthlyQuota = 1, minTimeMs = 15000\<rparr>"

definition free_plan :: plan where
  "free_plan = \<lparr>monthlyQuota = 500, minTimeMs = 15000\<rparr>"

definition one_tech :: techData where
  "one_tech = \<lparr>request = JStr ''https://whatcms.org/API/Tech'', last_checked = JStr [],
               result_code = JNum 200, result_msg = JStr ''Success'',
               results = [umbraco_tech], meta_social = [], error = []\<rparr>"

definition eleven_techs :: techData where
  "eleven_techs =
     one_tech\<lparr>results := replicate 10 umbraco_tech @ [umbraco_tech\<lparr>name := Some ''jQuery''\<rparr>]\<rparr>"

text \<open>
  The same answer with WordPress in place of Umbraco; a run over the file
  \<open>domains.txt\<close> with every option at its default, and a run over the single domain
  \<open>example.com\<close>; a file system that has \<open>out.csv\<close>, its timestamped sibling and
  \<open>reports/scan.csv\<close>; a file system whose input file is empty.
\<close>

definition wordpress_tech :: technology where
  "wordpress_tech = umbraco_tech\<lparr>name := Some ''WordPress''\<rparr>"

definition input_opts :: opts where
  "input_opts =
     \<lparr>opt_plan = ''free'', opt_source = ''tranco'', opt_extension = ''nl'', opt_fetch = False,
      opt_input = Some ''domains.txt'', opt_domain = None, opt_limit = None,
      opt_output = ''results.csv''\<rparr>"

definition single_opts :: opts where
  "single_opts = input_opts\<lparr>opt_input := None, opt_domain := Some ''example.com''\<rparr>"

definition world_taken :: world where
  "world_taken =
     world_up\<lparr>existsSync :=
       (\<lambda>f. f = ''out.csv'' \<or> f = ''out-2024-01-15T10-30-00.csv'' \<or> f = ''reports/scan.csv'')\<rparr>"

definition world_blank :: world where
  "world_blank = world_up\<lparr>readFileSync := (\<lambda>f. Some [])\<rparr>"

lemmas sample_defs = world_up_def world_down_def umbraco_answer_def umbraco_tech_def
  plan_one_def free_plan_def

lemmas eval_defs = sample_defs input_opts_def single_opts_def world_taken_def world_blank_def
  main_def given_def PLANS_def load_domains_def select_domains_def tldPattern_test_def
  toLowerCase_def lower_char_def getOutputFilename_def generateDefaultFilename_def
  timestamp_def sanitize_def alnum_def path_extname_def path_basename_def last_segment_def
  scan_def init_state_def scan_step_def Let_def

section \<open>Properties\<close>

subsection \<open>The loop\<close>

lemma scan_step_stopped: "status s \<noteq> Running \<Longrightarrow> scan_step W p domains s = s"
  by (simp add: scan_step_def)

lemma scan_loop_step: "scan_loop W p domains (scan_step W p domains s) = scan_loop W p domains s"
proof (cases "status s = Running")
  case True
  then show ?thesis by (subst (2) scan_loop.simps) simp
next
  case False
  then show ?thesis by (simp add: scan_step_stopped)
qed

lemma scan_loop_funpow:
  "scan_loop W p domains ((scan_step W p domains ^^ k) s) = scan_loop W p domains s"
  by (induction k) (simp_all add: scan_loop_step)

lemma scan_loop_stopped: "status (scan_loop W p domains s) \<noteq> Running"
proof (induction W p domains s rule: scan_loop.induct)
  case (1 W p domains s)
  then show ?case by (subst scan_loop.simps) simp
qed

lemma scan_inv_init: "scan_inv W p domains init_state"
  by (simp add: scan_inv_def init_state_def returned_calls_def)

lemma returned_calls_Suc:
  "returned_calls W domains (Suc j) =
     (if detect_ok W domains j then Suc (returned_calls W domains j) else returned_calls W domains j)"
  by (simp add: returned_calls_def)

lemma scan_inv_step:
  assumes "scan_inv W p domains s"
  shows "scan_inv W p domains (scan_step W p domains s)"
proof (cases "status s = Running \<and> idx s < length domains \<and> used s < monthlyQuota p")
  case False
  with assms show ?thesis
    by (auto simp: scan_inv_def scan_step_def)
next
  case True
  show ?thesis
  proof (cases "detect_at W domains (idx s)")
    case (Inl msg)
    with True assms show ?thesis
      by (auto simp: scan_inv_def scan_step_def Let_def limiter_schedule_def detect_at_def
          row_at_def detect_ok_def returned_calls_Suc take_Suc_conv_app_nth less_Suc_eq)
  next
    case (Inr td)
    with True assms show ?thesis
      by (auto simp: scan_inv_def scan_step_def Let_def limiter_schedule_def detect_at_def
          row_at_def detect_ok_def returned_calls_Suc take_Suc_conv_app_nth less_Suc_eq)
  qed
qed

lemma scan_inv_after: "scan_inv W p domains (scan_after W p domains k)"
  by (induction k) (simp_all add: scan_after_def scan_inv_init scan_inv_step)

lemma scan_inv_loop: "scan_inv W p domains s \<Longrightarrow> scan_inv W p domains (scan_loop W p domains s)"
proof (induction W p domains s rule: scan_loop.induct)
  case (1 W p domains s)
  show ?case
  proof (cases "status s = Running")
    case True
    with 1 show ?thesis by (subst scan_loop.simps) (simp add: scan_inv_step)
  next
    case False
    with 1 show ?thesis by (subst scan_loop.simps) simp
  qed
qed

lemma scan_inv_scan: "scan_inv W p domains (scan W p domains)"
  by (simp add: scan_def scan_inv_loop scan_inv_init)

lemma scan_eq_after: "scan W p domains = scan_loop W p domains (scan_after W p domains k)"
  by (simp add: scan_def scan_after_def scan_loop_funpow)

lemma rows_step_prefix: "prefix (rows s) (rows (scan_step W p domains s))"
  by (auto simp: scan_step_def Let_def split: sum.splits)

lemma rows_loop_prefix: "prefix (rows s) (rows (scan_loop W p domains s))"
proof (induction W p domains s rule: scan_loop.induct)
  case (1 W p domains s)
  show ?case
  proof (cases "status s = Running")
    case True
    have "prefix (rows s) (rows (scan_step W p domains s))" by (rule rows_step_prefix)
    also have "prefix \<dots> (rows (scan_loop W p domains (scan_step W p domains s)))"
      using 1 True by simp
    finally show ?thesis by (simp add: scan_loop_step)
  next
    case False
    then show ?thesis by (subst scan_loop.simps) simp
  qed
qed



text \<open>
  Claim C1. After any number of turns of the loop, \<open>used\<close> is at most the plan's monthly
  quota, and the rows pushed so far open the rows of the finished run. The loop always
  ends, halted or completed, and there is no outcome in which it throws. When a turn
  starts with a domain left and \<open>used\<close> at the quota, that turn halts the run: it makes no
  request, and the halted state, with the rows and requests as they were, is the final one.
\<close>

theorem quota_never_exceeded:
  "let s = scan_after W p domains k; final = scan W p domains in
     used s \<le> monthlyQuota p \<and>
     prefix (rows s) (rows final) \<and>
     status final \<in> {Halted, Completed} \<and>
     (status s = Running \<and> idx s < length domains \<and> monthlyQuota p \<le> used s \<longrightarrow>
        final = scan_step W p domains s \<and> status final = Halted \<and>
        requests final = requests s \<and> rows final = rows s)"
proof -
  define s where "s = scan_after W p domains k"
  define final where "final = scan W p domains"
  have inv: "scan_inv W p domains s" unfolding s_def by (rule scan_inv_after)
  have fin: "final = scan_loop W p domains s" unfolding final_def s_def by (rule scan_eq_after)
  have a: "used s \<le> monthlyQuota p" using inv by (simp add: scan_inv_def)
  have b: "prefix (rows s) (rows final)" unfolding fin by (rule rows_loop_prefix)
  have "status final \<noteq> Running" unfolding fin by (rule scan_loop_stopped)
  then have c: "status final \<in> {Halted, Completed}" by (cases "status final") simp_all
  have d: "final = scan_step W p domains s \<and> status final = Halted \<and>
        requests final = requests s \<and> rows final = rows s"
    if h: "status s = Running \<and> idx s < length domains \<and> monthlyQuota p \<le> used s"
  proof -
    let ?t = "scan_step W p domains s"
    from h have t: "?t = s\<lparr>console := console s @ [QuotaReached (monthlyQuota p)], status := Halted\<rparr>"
      by (simp add: scan_step_def)
    have "final = scan_loop W p domains ?t" unfolding fin by (simp add: scan_loop_step)
    also have "\<dots> = ?t" by (subst scan_loop.simps) (simp add: t)
    finally show ?thesis by (simp add: t)
  qed
  from a b c d show ?thesis unfolding s_def final_def Let_def by blast
qed

text \<open>
  With a quota of one and three domains, the first turn uses the quota up; the run halts
  at the second domain with the one row it has.
\<close>

theorem quota_never_exceeded_witness:
  "status (scan_after world_up plan_one [''a.com'', ''b.com'', ''c.com''] 1) = Running \<and>
   used (scan_after world_up plan_one [''a.com'', ''b.com'', ''c.com''] 1) = 1 \<and>
   status (scan world_up plan_one [''a.com'', ''b.com'', ''c.com'']) = Halted \<and>
   length (rows (scan world_up plan_one [''a.com'', ''b.com'', ''c.com''])) = 1 \<and>
   requests (scan world_up plan_one [''a.com'', ''b.com'', ''c.com'']) = [''a.com'']"
  using quota_never_exceeded [of world_up plan_one "[''a.com'', ''b.com'', ''c.com'']" 1]
  by (simp add: sample_defs scan_after_def scan_step_def init_state_def detectCMS_def
      limiter_schedule_def Let_def)

text \<open>
  Claim C2, as stated, fails: \<open>used++\<close> follows the awaited call inside the \<open>try\<close> block, so a
  call that throws is not counted. One domain whose request times out: \<open>detectCMS\<close> was
  called once, \<open>used\<close> is 0.
\<close>

theorem used_misses_failed_call:
  "used (scan world_down free_plan [''bad.com'']) \<noteq> length (requests (scan world_down free_plan [''bad.com'']))"
  by code_simp





text \<open>
  Claim C2, amended. When the run has ended, \<open>used\<close> is at most the monthly quota and
  equals the number of domains for which \<open>detectCMS\<close> was called and returned; the calls
  that threw make up the rest of the requests.
\<close>

theorem used_counts_returned_calls:
  "let final = scan W p domains in
     used final \<le> monthlyQuota p \<and>
     requests final = take (idx final) domains \<and>
     used final = length (filter (detect_ok W domains) [0..<length (requests final)]) \<and>
     length (requests final) =
       used final + length (filter (\<lambda>i. \<not> detect_ok W domains i) [0..<length (requests final)])"
proof -
  define final where "final = scan W p domains"
  have inv: "scan_inv W p domains final" unfolding final_def by (rule scan_inv_scan)
  then have len: "length (requests final) = idx final" by (simp add: scan_inv_def)
  have u: "used final = length (filter (detect_ok W domains) [0..<idx final])"
    using inv by (simp add: scan_inv_def returned_calls_def)
  have "length (filter (detect_ok W domains) [0..<idx final]) +
        length (filter (\<lambda>i. \<not> detect_ok W domains i) [0..<idx final]) = length [0..<idx final]"
    by (rule sum_length_filter_compl)
  with inv u len show ?thesis unfolding final_def [symmetric] Let_def
    by (simp add: scan_inv_def)
qed

subsection \<open>Rows and their slots\<close>

lemma row_at_domain: "row_domain (row_at W domains i) = domains ! i"
  by (simp add: row_at_def success_row_def error_row_def split: sum.splits)

text \<open>
  Claim C5. The rows of a finished run are the rows of the indices \<open>0, ..., i-1\<close> in that
  order, one each, the \<open>try\<close> block's row or the \<open>catch\<close> block's row; their domains are
  the first \<open>i\<close> input domains, which are also the domains requested. Here \<open>i\<close> is the
  whole length when the run completed, and the index of the first domain not dispatched
  when it halted.
\<close>

theorem one_row_per_domain_in_order:
  "let final = scan W p domains in
     rows final = map (row_at W domains) [0..<idx final] \<and>
     map row_domain (rows final) = take (idx final) domains \<and>
     length (rows final) = idx final \<and>
     requests final = map row_domain (rows final) \<and>
     (status final = Completed \<and> idx final = length domains \<or>
      status final = Halted \<and> idx final < length domains \<and> used final = monthlyQuota p)"
proof -
  define final where "final = scan W p domains"
  have inv: "scan_inv W p domains final" unfolding final_def by (rule scan_inv_scan)
  have r: "rows final = map (row_at W domains) [0..<idx final]"
    using inv by (simp add: scan_inv_def)
  have le: "idx final \<le> length domains" using inv by (simp add: scan_inv_def)
  have "map row_domain (rows final) = map (\<lambda>i. domains ! i) [0..<idx final]"
    by (simp add: r row_at_domain)
  also have "\<dots> = take (idx final) domains"
    using le by (simp add: list_eq_iff_nth_eq)
  finally have d: "map row_domain (rows final) = take (idx final) domains" .
  have q: "requests final = take (idx final) domains" using inv by (simp add: scan_inv_def)
  have "status final \<noteq> Running" unfolding final_def scan_def by (rule scan_loop_stopped)
  then have st: "status final = Completed \<and> idx final = length domains \<or>
      status final = Halted \<and> idx final < length domains \<and> used final = monthlyQuota p"
    using inv by (cases "status final") (auto simp: scan_inv_def)
  from r d q st show ?thesis unfolding final_def [symmetric] Let_def by simp
qed

lemma clear_slots_apply:
  "clear_slots js m n = (if 1 \<le> n \<and> n - 1 \<in> set js then Some empty_slot else m n)"
  by (induction js arbitrary: m) auto

lemma fill_slots_apply:
  "fill_slots rs js m n = (if 1 \<le> n \<and> n - 1 \<in> set js then Some (slot_of (rs ! (n - 1))) else m n)"
  by (induction js arbitrary: m) auto

lemma error_row_tech:
  "row_tech (error_row domain msg) = (\<lambda>n. if 1 \<le> n \<and> n \<le> 10 then Some empty_slot else None)"
  by (auto simp: error_row_def clear_slots_apply fun_eq_iff)

lemma success_row_tech:
  "row_tech (success_row W domain td) =
     (\<lambda>n. if 1 \<le> n \<and> n \<le> 10
           then Some (if n \<le> length (results td) then slot_of (results td ! (n - 1)) else empty_slot)
           else None)"
  by (auto simp: success_row_def clear_slots_apply fill_slots_apply fun_eq_iff)

text \<open>
  \<open>detectCMS\<close> throws in two cases: the request itself failed (no connection, timeout,
  rejected status), or the answer carries a truthy \<open>error\<close>.
\<close>

lemma detectCMS_throws:
  "detectCMS resp = Inl msg \<longleftrightarrow>
     resp = HttpFailure msg \<or>
     (\<exists>d. resp = HttpResponse d \<and> data_error d \<and> msg = error_message (data_msg d))"
  by (cases resp) (auto simp: detectCMS_def)

text \<open>
  Claim C7. If the call for the domain at index \<open>k\<close> was made and threw with message
  \<open>msg\<close>, the row at position \<open>k\<close> of the finished run has that domain, that message, 0 as
  count, empty strings in the other columns and ten empty slots. The run went on: the
  next domain, if there is one, was dispatched as well, and if there is none the run
  completed.
\<close>

theorem failed_detection_row:
  assumes "k < idx (scan W p domains)" and "detect_at W domains k = Inl msg"
  shows "rows (scan W p domains) ! k =
           \<lparr>row_domain = domains ! k, row_request = JStr [], row_last_checked = JStr [],
            row_result_code = JStr [], row_result_msg = JStr [], row_results_count = 0,
            row_results_json = [], row_meta_social_json = [], row_error = msg,
            row_tech = (\<lambda>n. if 1 \<le> n \<and> n \<le> 10 then Some empty_slot else None)\<rparr> \<and>
         length (rows (scan W p domains)) = idx (scan W p domains) \<and>
         (Suc k < length domains \<longrightarrow> Suc k < idx (scan W p domains)) \<and>
         (Suc k = length domains \<longrightarrow> status (scan W p domains) = Completed)"
proof -
  define final where "final = scan W p domains"
  have inv: "scan_inv W p domains final" unfolding final_def by (rule scan_inv_scan)
  have k: "k < idx final" using assms(1) by (simp add: final_def)
  have r: "rows final = map (row_at W domains) [0..<idx final]"
    using inv by (simp add: scan_inv_def)
  have "rows final ! k = row_at W domains k" using k by (simp add: r)
  also have "\<dots> = error_row (domains ! k) msg" by (simp add: row_at_def assms(2))
  finally have a: "rows final ! k = error_row (domains ! k) msg" .
  have e: "error_row (domains ! k) msg = \<lparr>row_domain = domains ! k, row_request = JStr [], row_last_checked = JStr [],
            row_result_code = JStr [], row_result_msg = JStr [], row_results_count = 0,
            row_results_json = [], row_meta_social_json = [], row_error = msg,
            row_tech = (\<lambda>n. if 1 \<le> n \<and> n \<le> 10 then Some empty_slot else None)\<rparr>"
    using error_row_tech [of "domains ! k" msg] by (simp add: error_row_def)
  have nr: "status final \<noteq> Running" unfolding final_def scan_def by (rule scan_loop_stopped)
  have "returned_calls W domains k < monthlyQuota p"
    using inv k by (simp add: scan_inv_def)
  moreover have "\<not> detect_ok W domains k" by (simp add: detect_ok_def assms(2))
  ultimately have below: "returned_calls W domains (Suc k) < monthlyQuota p"
    by (simp add: returned_calls_Suc)
  have nh: "idx final = Suc k \<Longrightarrow> status final \<noteq> Halted"
    using inv below by (auto simp: scan_inv_def)
  have c: "Suc k < idx final" if "Suc k < length domains"
  proof (rule ccontr)
    assume "\<not> Suc k < idx final"
    with k have i: "idx final = Suc k" by simp
    with that inv have "status final \<noteq> Completed" by (auto simp: scan_inv_def)
    with nr nh [OF i] show False by (cases "status final") simp_all
  qed
  have d: "status final = Completed" if "Suc k = length domains"
  proof -
    from inv k that have "idx final = Suc k" by (simp add: scan_inv_def)
    from nh [OF this] nr show ?thesis by (cases "status final") simp_all
  qed
  from a e c d r show ?thesis unfolding final_def [symmetric] by simp
qed

text \<open>Two domains, both timing out: two error rows, and the run completes.\<close>

theorem failed_detection_row_witness:
  "rows (scan world_down free_plan [''bad.com'', ''next.com'']) ! 0 = error_row ''bad.com'' ''timeout of 15000ms exceeded'' \<and>
   idx (scan world_down free_plan [''bad.com'', ''next.com'']) = 2 \<and>
   rows (scan world_down free_plan [''bad.com'', ''next.com'']) ! 1 = error_row ''next.com'' ''timeout of 15000ms exceeded'' \<and>
   status (scan world_down free_plan [''bad.com'', ''next.com'']) = Completed"
proof -
  have i: "idx (scan world_down free_plan [''bad.com'', ''next.com'']) = 2" by code_simp
  have f0: "detect_at world_down [''bad.com'', ''next.com''] 0 = Inl ''timeout of 15000ms exceeded''"
    by (simp add: detect_at_def detectCMS_def world_down_def world_up_def)
  have f1: "detect_at world_down [''bad.com'', ''next.com''] 1 = Inl ''timeout of 15000ms exceeded''"
    by (simp add: detect_at_def detectCMS_def world_down_def world_up_def)
  have e: "error_row d m = \<lparr>row_domain = d, row_request = JStr [], row_last_checked = JStr [],
            row_result_code = JStr [], row_result_msg = JStr [], row_results_count = 0,
            row_results_json = [], row_meta_social_json = [], row_error = m,
            row_tech = (\<lambda>n. if 1 \<le> n \<and> n \<le> 10 then Some empty_slot else None)\<rparr>" for d m
    using error_row_tech [of d m] by (simp add: error_row_def)
  show ?thesis
    using failed_detection_row [of 0 world_down free_plan "[''bad.com'', ''next.com'']", OF _ f0]
      failed_detection_row [of 1 world_down free_plan "[''bad.com'', ''next.com'']", OF _ f1]
    by (simp add: i e)
qed



lemma slot_of_named: "name t \<noteq> None \<Longrightarrow> name t \<noteq> Some [] \<Longrightarrow> slot_of t \<noteq> empty_slot"
  by (auto simp: slot_of_def empty_slot_def)

text \<open>
  Claim C6. For the row built from a returned result with \<open>N\<close> technologies: the count
  column is \<open>N\<close>; the row has the slots 1 to 10 and no other; slot \<open>n\<close> holds the columns of
  technology \<open>n\<close> for \<open>n\<close> up to \<open>min N 10\<close> and the empty slot from \<open>N+1\<close> on; the slots are
  those of the first ten technologies alone. A technology with a name fills its slot with
  something other than the empty slot, so that with named technologies exactly
  \<open>min N 10\<close> slots are filled and \<open>10 - N\<close> are empty.
\<close>

theorem technology_slots:
  "let r = success_row W domain td; N = length (results td) in
     row_results_count r = N \<and>
     dom (row_tech r) = {1..10} \<and>
     (\<forall>n\<in>{1..min N 10}. row_tech r n = Some (slot_of (results td ! (n - 1)))) \<and>
     (\<forall>n\<in>{N + 1..10}. row_tech r n = Some empty_slot) \<and>
     row_tech r = row_tech (success_row W domain (td\<lparr>results := take 10 (results td)\<rparr>)) \<and>
     ((\<forall>t\<in>set (take 10 (results td)). name t \<noteq> None \<and> name t \<noteq> Some []) \<longrightarrow>
        card {n. row_tech r n \<noteq> None \<and> row_tech r n \<noteq> Some empty_slot} = min N 10 \<and>
        card {n. row_tech r n = Some empty_slot} = 10 - N)"
proof -
  define r where "r = success_row W domain td"
  define N where "N = length (results td)"
  have t: "row_tech r n = (if 1 \<le> n \<and> n \<le> 10
           then Some (if n \<le> N then slot_of (results td ! (n - 1)) else empty_slot) else None)" for n
    by (simp add: r_def N_def success_row_tech)
  have a: "row_results_count r = N" by (simp add: r_def N_def success_row_def)
  have b: "dom (row_tech r) = {1..10}" by (auto simp: dom_def t)
  have c: "\<forall>n\<in>{1..min N 10}. row_tech r n = Some (slot_of (results td ! (n - 1)))"
    by (simp add: t)
  have d: "\<forall>n\<in>{N + 1..10}. row_tech r n = Some empty_slot" by (simp add: t)
  have e: "row_tech r = row_tech (success_row W domain (td\<lparr>results := take 10 (results td)\<rparr>))"
    by (auto simp: r_def success_row_tech fun_eq_iff)
  have f: "card {n. row_tech r n \<noteq> None \<and> row_tech r n \<noteq> Some empty_slot} = min N 10 \<and>
        card {n. row_tech r n = Some empty_slot} = 10 - N"
    if named: "\<forall>t\<in>set (take 10 (results td)). name t \<noteq> None \<and> name t \<noteq> Some []"
  proof -
    have ne: "slot_of (results td ! (n - 1)) \<noteq> empty_slot" if "1 \<le> n" "n \<le> 10" "n \<le> N" for n
    proof -
      from that have "n - 1 < length (take 10 (results td))" unfolding N_def by auto
      then have "take 10 (results td) ! (n - 1) \<in> set (take 10 (results td))" by (rule nth_mem)
      moreover from that have "take 10 (results td) ! (n - 1) = results td ! (n - 1)" by simp
      ultimately show ?thesis using named by (simp add: slot_of_named)
    qed
    have "{n. row_tech r n \<noteq> None \<and> row_tech r n \<noteq> Some empty_slot} = {1..min N 10}"
      using ne by (auto simp: t)
    moreover have "{n. row_tech r n = Some empty_slot} = {N + 1..10}"
      using ne by (auto simp: t)
    ultimately show ?thesis by simp
  qed
  from a b c d e f show ?thesis unfolding r_def [symmetric] N_def [symmetric] Let_def by blast
qed

text \<open>One technology: slot 1 filled, nine empty. Eleven: ten filled, count 11.\<close>

theorem technology_slots_witness:
  "row_tech (success_row world_up ''a.com'' one_tech) 1 = Some (slot_of umbraco_tech) \<and>
   row_tech (success_row world_up ''a.com'' one_tech) 2 = Some empty_slot \<and>
   card {n. row_tech (success_row world_up ''a.com'' one_tech) n = Some empty_slot} = 9 \<and>
   card {n. row_tech (success_row world_up ''a.com'' one_tech) n \<noteq> None \<and>
            row_tech (success_row world_up ''a.com'' one_tech) n \<noteq> Some empty_slot} = 1 \<and>
   row_results_count (success_row world_up ''a.com'' eleven_techs) = 11 \<and>
   dom (row_tech (success_row world_up ''a.com'' eleven_techs)) = {1..10} \<and>
   row_tech (success_row world_up ''a.com'' eleven_techs) 10 = Some (slot_of umbraco_tech) \<and>
   card {n. row_tech (success_row world_up ''a.com'' eleven_techs) n = Some empty_slot} = 0"
proof -
  let ?r1 = "success_row world_up ''a.com'' one_tech"
  let ?r11 = "success_row world_up ''a.com'' eleven_techs"
  have l1: "length (results one_tech) = 1" "results one_tech ! 0 = umbraco_tech"
    by (simp_all add: one_tech_def)
  have l11: "length (results eleven_techs) = 11" "results eleven_techs ! 9 = umbraco_tech"
    by (simp_all add: eleven_techs_def nth_append)
  have n1: "\<forall>t\<in>set (take 10 (results one_tech)). name t \<noteq> None \<and> name t \<noteq> Some []"
    by (simp add: one_tech_def umbraco_tech_def)
  have n11: "\<forall>t\<in>set (take 10 (results eleven_techs)). name t \<noteq> None \<and> name t \<noteq> Some []"
    by (simp add: eleven_techs_def umbraco_tech_def)
  note c1 = technology_slots [of world_up "''a.com''" one_tech, unfolded Let_def l1]
  note c11 = technology_slots [of world_up "''a.com''" eleven_techs, unfolded Let_def l11]
  from c1 have "\<forall>n\<in>{1..min 1 10}. row_tech ?r1 n = Some (slot_of (results one_tech ! (n - 1)))"
    by blast
  then have a: "row_tech ?r1 1 = Some (slot_of umbraco_tech)" by (simp add: l1)
  from c1 have "\<forall>n\<in>{1 + 1..10}. row_tech ?r1 n = Some empty_slot" by blast
  then have b: "row_tech ?r1 2 = Some empty_slot" by simp
  from c1 n1 have "card {n. row_tech ?r1 n \<noteq> None \<and> row_tech ?r1 n \<noteq> Some empty_slot} = min 1 10 \<and>
      card {n. row_tech ?r1 n = Some empty_slot} = 10 - 1"
    by blast
  then have c: "card {n. row_tech ?r1 n = Some empty_slot} = 9 \<and>
      card {n. row_tech ?r1 n \<noteq> None \<and> row_tech ?r1 n \<noteq> Some empty_slot} = 1"
    by simp
  from c11 have d: "row_results_count ?r11 = 11 \<and> dom (row_tech ?r11) = {1..10}" by blast
  from c11 have "\<forall>n\<in>{1..min 11 10}. row_tech ?r11 n = Some (slot_of (results eleven_techs ! (n - 1)))"
    by blast
  then have e: "row_tech ?r11 10 = Some (slot_of umbraco_tech)" by (simp add: l11)
  from c11 n11 have "card {n. row_tech ?r11 n = Some empty_slot} = 10 - 11" by blast
  then have f: "card {n. row_tech ?r11 n = Some empty_slot} = 0" by simp
  from a b c d e f show ?thesis by blast
qed



subsection \<open>The Umbraco check and the row\<close>

lemma slot_of_nameless: "(slot_of t)\<lparr>slot_name := []\<rparr> = slot_of (nameless t)"
  by (simp add: slot_of_def nameless_def)

lemma without_names_success:
  fixes td td' :: techData
  assumes "td'\<lparr>results := []\<rparr> = td\<lparr>results := []\<rparr>"
    and "map nameless (results td') = map nameless (results td)"
  shows "without_names (success_row W domain td') = without_names (success_row W domain td)"
proof -
  from assms(2) have len: "length (results td') = length (results td)"
    by (metis length_map)
  have nth: "slot_of (nameless (results td' ! i)) = slot_of (nameless (results td ! i))"
    if "i < length (results td)" for i
  proof -
    from that len have "map nameless (results td') ! i = nameless (results td' ! i)"
      and "map nameless (results td) ! i = nameless (results td ! i)" by simp_all
    with assms(2) show ?thesis by simp
  qed
  have f: "request td' = request td" "last_checked td' = last_checked td"
    "result_code td' = result_code td" "result_msg td' = result_msg td"
    "meta_social td' = meta_social td" "error td' = error td"
    using arg_cong [OF assms(1), of request] arg_cong [OF assms(1), of last_checked]
      arg_cong [OF assms(1), of result_code] arg_cong [OF assms(1), of result_msg]
      arg_cong [OF assms(1), of meta_social] arg_cong [OF assms(1), of error]
    by simp_all
  have t: "map_option (\<lambda>sl. sl\<lparr>slot_name := []\<rparr>) (row_tech (success_row W domain td') n) =
           map_option (\<lambda>sl. sl\<lparr>slot_name := []\<rparr>) (row_tech (success_row W domain td) n)" for n
    using nth [of "n - 1"]
    by (auto simp: success_row_tech len slot_of_nameless empty_slot_def)
  show ?thesis
    by (simp add: without_names_def t) (simp add: success_row_def f len)
qed

text \<open>
  Claim C10. In a turn whose call returns \<open>td\<close>, the row pushed is the \<open>try\<close> block's row
  for the domain and \<open>td\<close>, whichever way the Umbraco check goes; the check decides only
  which line is logged. Two results that agree in everything but the names of their
  technologies give rows that agree in everything but the columns carrying those names.
\<close>

theorem umbraco_check_leaves_row:
  assumes "status s = Running" and "idx s < length domains" and "used s < monthlyQuota p"
    and "detect_at W domains (idx s) = Inr td"
  shows "rows (scan_step W p domains s) = rows s @ [success_row W (domains ! idx s) td] \<and>
         console (scan_step W p domains s) =
           console s @ [Scanning (idx s + 1) (length domains) (domains ! idx s),
                        umbraco_line (idx s) (length domains) (domains ! idx s) td] \<and>
         (\<forall>td'. td'\<lparr>results := []\<rparr> = td\<lparr>results := []\<rparr> \<and>
                map nameless (results td') = map nameless (results td) \<longrightarrow>
                without_names (success_row W (domains ! idx s) td') =
                without_names (success_row W (domains ! idx s) td))"
proof -
  from assms have "rows (scan_step W p domains s) = rows s @ [success_row W (domains ! idx s) td]"
    and "console (scan_step W p domains s) =
           console s @ [Scanning (idx s + 1) (length domains) (domains ! idx s),
                        umbraco_line (idx s) (length domains) (domains ! idx s) td]"
    by (simp_all add: scan_step_def Let_def limiter_schedule_def detect_at_def)
  then show ?thesis by (blast intro: without_names_success)
qed

text \<open>
  Umbraco against WordPress on the first turn of a run: the console line changes from a
  hit to a miss, the rows differ in the name columns only.
\<close>

theorem umbraco_check_leaves_row_witness:
  "rows (scan_step world_up free_plan [''a.com''] init_state) = [success_row world_up ''a.com'' one_tech] \<and>
   console (scan_step world_up free_plan [''a.com''] init_state) =
     [Scanning 1 1 ''a.com'', IsUmbraco 1 1 ''a.com'' '' v10.0.0''] \<and>
   umbraco_line 0 1 ''a.com'' (one_tech\<lparr>results := [wordpress_tech]\<rparr>) = NotUmbraco 1 1 ''a.com'' ''WordPress'' \<and>
   without_names (success_row world_up ''a.com'' (one_tech\<lparr>results := [wordpress_tech]\<rparr>)) =
   without_names (success_row world_up ''a.com'' one_tech)"
proof -
  have d: "detect_at world_up [''a.com''] (idx init_state) = Inr one_tech"
    by (simp add: detect_at_def detectCMS_def sample_defs one_tech_def init_state_def or_empty_def)
  have h: "status init_state = Running" "idx init_state < length [''a.com'']"
    "used init_state < monthlyQuota free_plan"
    by (simp_all add: init_state_def free_plan_def)
  note c = umbraco_check_leaves_row [OF h d]
  have u: "umbraco_line 0 1 ''a.com'' one_tech = IsUmbraco 1 1 ''a.com'' '' v10.0.0''"
    by (simp add: umbraco_line_def one_tech_def umbraco_tech_def is_umbraco_def toLowerCase_def lower_char_def)
  have w: "umbraco_line 0 1 ''a.com'' (one_tech\<lparr>results := [wordpress_tech]\<rparr>) = NotUmbraco 1 1 ''a.com'' ''WordPress''"
    by (simp add: umbraco_line_def one_tech_def wordpress_tech_def umbraco_tech_def is_umbraco_def toLowerCase_def lower_char_def)
  have n: "(one_tech\<lparr>results := [wordpress_tech]\<rparr>)\<lparr>results := []\<rparr> = one_tech\<lparr>results := []\<rparr> \<and>
     map nameless (results (one_tech\<lparr>results := [wordpress_tech]\<rparr>)) = map nameless (results one_tech)"
    by (simp add: one_tech_def wordpress_tech_def nameless_def)
  from c have "\<forall>td'. td'\<lparr>results := []\<rparr> = one_tech\<lparr>results := []\<rparr> \<and>
                map nameless (results td') = map nameless (results one_tech) \<longrightarrow>
                without_names (success_row world_up ([''a.com''] ! idx init_state) td') =
                without_names (success_row world_up ([''a.com''] ! idx init_state) one_tech)" by blast
  with n have e: "without_names (success_row world_up ([''a.com''] ! idx init_state) (one_tech\<lparr>results := [wordpress_tech]\<rparr>)) =
                without_names (success_row world_up ([''a.com''] ! idx init_state) one_tech)" by blast
  note r = c [THEN conjunct1] and l = c [THEN conjunct2, THEN conjunct1]
  from r l e u w show ?thesis by (simp add: init_state_def)
qed

subsection \<open>The whole script and its output file\<close>

text \<open>
  Claim C3. The script tests for an empty list before the TLD filter, not after it. A file
  with the one line \<open>example.com\<close>, scanned with the default extension \<open>nl\<close>: the list
  loaded is not empty, the filter leaves nothing, and the run ends normally after writing
  a file with no rows. With an empty input file the same options exit with code 0 and
  write nothing.
\<close>

theorem empty_after_filter_writes_file:
  "load_domains world_up input_opts = Inr [''example.com''] \<and>
   select_domains input_opts [''example.com''] = [] \<and>
   main world_up input_opts =
     Written ''cms-scan-tranco-nl-2024-01-15T10-30-00.csv'' []
       \<lparr>idx = 0, used = 0, rows = [], requests = [], console = [], status = Completed\<rparr> \<and>
   output_file (main world_up input_opts) = Some (''cms-scan-tranco-nl-2024-01-15T10-30-00.csv'', []) \<and>
   exit_code (main world_up input_opts) = 0 \<and>
   main world_blank input_opts = Exit 0 \<and>
   output_file (main world_blank input_opts) = None"
  by (simp add: eval_defs scan_loop.simps)

text \<open>
  Claim C8, as stated, fails for the path \<open>results.csv\<close>, which the script takes for the
  option's default: no such file exists, and the name returned is a generated one.
\<close>

theorem default_name_not_verbatim:
  "\<not> existsSync world_up (opt_output single_opts) \<and>
   getOutputFilename world_up single_opts \<noteq> opt_output single_opts"
  by code_simp

text \<open>
  Claim C8, amended. An output path that is not empty and not \<open>results.csv\<close>, at which no
  file exists, is returned unchanged.
\<close>

theorem explicit_output_verbatim:
  assumes "opt_output opts \<noteq> []" and "opt_output opts \<noteq> ''results.csv''"
    and "\<not> existsSync W (opt_output opts)"
  shows "getOutputFilename W opts = opt_output opts"
  using assms by (simp add: getOutputFilename_def Let_def)

text \<open>The README's \<open>--output umbraco-scan.csv\<close>, on a file system without that file.\<close>

theorem explicit_output_verbatim_witness:
  "getOutputFilename world_up (single_opts\<lparr>opt_output := ''umbraco-scan.csv''\<rparr>) = ''umbraco-scan.csv''"
  using explicit_output_verbatim [of "single_opts\<lparr>opt_output := ''umbraco-scan.csv''\<rparr>" world_up]
  by (simp add: world_up_def)

text \<open>
  Claim C9. The existence test is made once, before the timestamp is added, and the new
  name is built from the base name alone. With \<open>out.csv\<close> and
  \<open>out-2024-01-15T10-30-00.csv\<close> both present at 10:30:00, the name returned for
  \<open>out.csv\<close> is the second file; for the existing \<open>reports/scan.csv\<close> the name returned
  has lost the directory.
\<close>

theorem timestamped_name_may_exist:
  "existsSync world_taken ''out.csv'' \<and>
   getOutputFilename world_taken (single_opts\<lparr>opt_output := ''out.csv''\<rparr>) = ''out-2024-01-15T10-30-00.csv'' \<and>
   existsSync world_taken ''out-2024-01-15T10-30-00.csv'' \<and>
   existsSync world_taken ''reports/scan.csv'' \<and>
   getOutputFilename world_taken (single_opts\<lparr>opt_output := ''reports/scan.csv''\<rparr>) = ''scan-2024-01-15T10-30-00.csv''"
  by code_simp

end
